theory Spec2Isabelle
  imports Main "HOL-Library.Word" "HOL-Library.Product_Lexorder"
begin

section \<open>Data model\<close>

text \<open>
  The chat plugin keeps its persistent state in four SQL tables (\<open>rooms\<close>,
  \<open>messages\<close>, \<open>attachments\<close>, \<open>blocked_keys\<close>) and its live state in the maps
  of \<open>WebRTCServer\<close>. A table is a list of rows in the order the executor scans them;
  a \<open>SERIAL\<close> column draws from a sequence kept beside the tables. A nullable column
  is an \<open>option\<close>. Strings are \<open>string\<close>, JavaScript numbers that hold
  timestamps are \<open>int\<close>.

  \<open>runTrans\<close>, the platform's transaction wrapper, makes its body one atomic step:
  an operation that runs in a transaction is a function from the store before it to
  the store after it. Failures of the database connection are outside the model,
  except where a handler's behaviour on them is the subject (see
  \<open>chatSvc_blockUser\<close>).

  The write path and the lookup by room id carry the errors the schema's column
  types raise: an \<open>INTEGER\<close> column or parameter holds at most 2147483647, a
  \<open>BIGINT\<close> one a 64 bit signed number, and a \<open>SERIAL\<close> sequence stops at
  2147483647. A statement that raises makes the awaiting function throw.
\<close>

datatype MessageStates = SENT | SAVED | FAILED

type_synonym bytes = "8 word list"

record MessageAttachment =
  a_name :: string
  a_type :: string
  a_size :: nat
  a_data :: string

record ChatMessage =
  m_id :: string
  m_timestamp :: int
  m_sender :: string
  m_content :: string
  m_publicKey :: "string option"
  m_signature :: "string option"
  m_state :: "MessageStates option"
  m_attachments :: "MessageAttachment list"

record room_row =
  room_id :: nat
  room_name :: string

record message_row =
  row_id :: string
  row_state :: "MessageStates option"
  row_room_id :: nat
  row_timestamp :: int
  row_sender :: string
  row_content :: string
  row_public_key :: "string option"
  row_signature :: "string option"

record attachment_row =
  att_id :: nat
  att_message_id :: string
  att_name :: string
  att_type :: string
  att_size :: nat
  att_data :: "bytes option"

record db =
  rooms :: "room_row list"
  messages :: "message_row list"
  attachments :: "attachment_row list"
  blocked_keys :: "string list"
  rooms_id_seq :: nat
  attachments_id_seq :: nat

datatype error = StoreFailure string

definition INT4_MAX :: nat where
  "INT4_MAX = 2147483647"

definition inBigint :: "int \<Rightarrow> bool" where
  "inBigint t = (- 9223372036854775808 \<le> t \<and> t \<le> 9223372036854775807)"

text \<open>
  Modelled from the spec: \<open>runTrans\<close> is platform code. The spec's contract for a
  transaction is that its operations either all commit or all roll back; a body that
  throws is rolled back and the error is thrown on. A roll back restores the tables;
  the values drawn from a sequence stay drawn.
\<close>

definition rollback :: "db \<Rightarrow> db \<Rightarrow> db" where
  "rollback d0 d1 =
     d0\<lparr>rooms_id_seq := rooms_id_seq d1, attachments_id_seq := attachments_id_seq d1\<rparr>"


section \<open>DBRoom and DBMessages\<close>

text \<open>
  \<open>DBRoom.getOrCreateRoom\<close>: \<open>SELECT id FROM rooms WHERE name = $1\<close>, and when no
  row comes back \<open>INSERT INTO rooms (name) VALUES ($1) RETURNING id\<close>.
\<close>

definition getOrCreateRoom :: "db \<Rightarrow> string \<Rightarrow> (error + nat) \<times> db" where
  "getOrCreateRoom d roomName =
     (case find (\<lambda>r. room_name r = roomName) (rooms d) of
        Some result \<Rightarrow> (Inr (room_id result), d)
      | None \<Rightarrow>
          if INT4_MAX \<le> rooms_id_seq d
          then (Inl (StoreFailure ''nextval: reached maximum value of sequence''), d)
          else
            (let newId = Suc (rooms_id_seq d)
             in (Inr newId,
                 d\<lparr>rooms := rooms d @ [\<lparr>room_id = newId, room_name = roomName\<rparr>],
                   rooms_id_seq := newId\<rparr>)))"

text \<open>
  The JavaScript idiom \<open>v || null\<close> on an optional string: \<open>undefined\<close> and the
  empty string both become \<open>null\<close>.
\<close>

definition orNull :: "string option \<Rightarrow> string option" where
  "orNull v = (case v of None \<Rightarrow> None | Some s \<Rightarrow> if s = [] then None else Some s)"

text \<open>
  The data URL pattern of \<open>persistMessageToRoomId\<close>,
  \<^verbatim>\<open>/^data:([A-Za-z-+/]+);base64,(.+)$/\<close>: the class holds the letters and
  \<open>-\<close>, \<open>+\<close>, \<open>/\<close> (no digit), so the first group is the longest run of
  such characters; the dot matches no line terminator (of those, line feed and
  carriage return are single characters of a \<open>string\<close>). \<open>matchDataUrl\<close>
  returns the second group.
\<close>

definition mimeChar :: "char \<Rightarrow> bool" where
  "mimeChar c =
     (let n = (of_char c :: nat)
      in (65 \<le> n \<and> n \<le> 90) \<or> (97 \<le> n \<and> n \<le> 122) \<or>
         c = CHR ''-'' \<or> c = CHR ''+'' \<or> c = CHR ''/'')"

definition lineTerminator :: "char \<Rightarrow> bool" where
  "lineTerminator c = ((of_char c :: nat) = 10 \<or> (of_char c :: nat) = 13)"

definition matchDataUrl :: "string \<Rightarrow> string option" where
  "matchDataUrl s =
     (if take 5 s = ''data:'' then
        (let r = drop 5 s;
             mime = takeWhile mimeChar r;
             rest = dropWhile mimeChar r;
             payload = drop 8 rest
         in if mime \<noteq> [] \<and> take 8 rest = '';base64,'' \<and> payload \<noteq> [] \<and>
               list_ex lineTerminator payload = False
            then Some payload else None)
      else None)"

text \<open>
  One pass of the attachment loop of \<open>persistMessageToRoomId\<close>. \<open>fromBase64\<close>
  stands for Node's \<open>Buffer.from(s, 'base64')\<close>. The \<open>INSERT\<close> is refused when
  \<open>size\<close> does not fit its \<open>INTEGER\<close> column, or when the id sequence is
  used up. The result is the error thrown, if any, and the store.
\<close>

definition insertAttachment ::
  "(string \<Rightarrow> bytes) \<Rightarrow> string \<Rightarrow> db \<Rightarrow> MessageAttachment \<Rightarrow> error option \<times> db" where
  "insertAttachment fromBase64 messageId d attachment =
     (let binaryData =
            (if a_data attachment = [] then None
             else map_option fromBase64 (matchDataUrl (a_data attachment)))
      in if INT4_MAX < a_size attachment
         then (Some (StoreFailure ''value out of range for type integer''), d)
         else if INT4_MAX \<le> attachments_id_seq d
         then (Some (StoreFailure ''nextval: reached maximum value of sequence''), d)
         else
           (let newId = Suc (attachments_id_seq d)
            in (None,
                d\<lparr>attachments := attachments d @
                     [\<lparr>att_id = newId, att_message_id = messageId,
                       att_name = a_name attachment, att_type = a_type attachment,
                       att_size = a_size attachment, att_data = binaryData\<rparr>],
                  attachments_id_seq := newId\<rparr>)))"

text \<open>
  The loop \<open>for (const attachment of message.attachments)\<close>: it stops at the first
  \<open>INSERT\<close> that throws.
\<close>

fun insertAttachments ::
  "(string \<Rightarrow> bytes) \<Rightarrow> string \<Rightarrow> db \<Rightarrow> MessageAttachment list \<Rightarrow> error option \<times> db" where
  "insertAttachments fromBase64 messageId d [] = (None, d)"
| "insertAttachments fromBase64 messageId d (attachment # rest) =
     (case insertAttachment fromBase64 messageId d attachment of
        (Some e, d') \<Rightarrow> (Some e, d')
      | (None, d') \<Rightarrow> insertAttachments fromBase64 messageId d' rest)"

text \<open>
  The first statement of \<open>persistMessageToRoomId\<close>,
  \<open>INSERT INTO messages ... ON CONFLICT (id) DO NOTHING\<close>, with its \<open>rowCount\<close>.
  The parameters are converted before the statement runs, so a timestamp outside
  \<open>BIGINT\<close> is refused whether or not the id is stored; a row that is inserted
  must name a stored room (\<open>room_id\<close> references \<open>rooms.id\<close>, which is where
  the callers take the room id from).
\<close>

definition insertMessageRow :: "db \<Rightarrow> nat \<Rightarrow> ChatMessage \<Rightarrow> (error + nat) \<times> db" where
  "insertMessageRow d roomId message =
     (if \<not> inBigint (m_timestamp message)
      then (Inl (StoreFailure ''value out of range for type bigint''), d)
      else if list_ex (\<lambda>row. row_id row = m_id message) (messages d)
      then (Inr 0, d)
      else if \<not> list_ex (\<lambda>r. room_id r = roomId) (rooms d)
      then (Inl (StoreFailure ''violates foreign key constraint''), d)
      else (Inr 1,
            d\<lparr>messages := messages d @
                 [\<lparr>row_id = m_id message, row_state = m_state message,
                   row_room_id = roomId, row_timestamp = m_timestamp message,
                   row_sender = m_sender message, row_content = m_content message,
                   row_public_key = orNull (m_publicKey message),
                   row_signature = orNull (m_signature message)\<rparr>]\<rparr>))"

text \<open>
  \<open>DBMessages.persistMessageToRoomId\<close>. The message object is mutated
  (\<open>message.state = SAVED\<close>) before the insert, so the updated message is part of
  the result. When \<open>rowCount\<close> is 0 the function returns \<open>true\<close> without touching
  the attachments; it returns \<open>true\<close> after the attachment loop too, and throws
  what a statement throws.
\<close>

definition persistMessageToRoomId ::
  "(string \<Rightarrow> bytes) \<Rightarrow> db \<Rightarrow> nat \<Rightarrow> ChatMessage \<Rightarrow> (error + bool) \<times> ChatMessage \<times> db" where
  "persistMessageToRoomId fromBase64 d roomId message0 =
     (let message = message0\<lparr>m_state := Some SAVED\<rparr>
      in case insertMessageRow d roomId message of
           (Inl e, d1) \<Rightarrow> (Inl e, message, d1)
         | (Inr rowCount, d1) \<Rightarrow>
             if rowCount = 0 then (Inr True, message, d1)
             else
               (case insertAttachments fromBase64 (m_id message) d1 (m_attachments message) of
                  (Some e, d2) \<Rightarrow> (Inl e, message, d2)
                | (None, d2) \<Rightarrow> (Inr True, message, d2)))"



text \<open>
  \<open>DBMessages.deleteMessage\<close>. \<open>results[0].public_key !== publicKey\<close> compares a
  nullable column with a string and \<open>publicKey !== adminPubKey\<close> a string with a
  nullable string. The two \<open>DELETE\<close> statements run in this order inside one
  transaction; \<open>success\<close> is \<open>rowCount > 0\<close> of the second.
\<close>

definition deleteMessage :: "db \<Rightarrow> string \<Rightarrow> string \<Rightarrow> string option \<Rightarrow> bool \<times> db" where
  "deleteMessage d messageId publicKey adminPubKey =
     (case filter (\<lambda>m. row_id m = messageId) (messages d) of
        [] \<Rightarrow> (False, d)
      | r # _ \<Rightarrow>
          if row_public_key r \<noteq> Some publicKey \<and> Some publicKey \<noteq> adminPubKey
          then (False, d)
          else
            (let d1 = d\<lparr>attachments :=
                        filter (\<lambda>a. att_message_id a \<noteq> messageId) (attachments d)\<rparr>;
                 rowCount = length (filter (\<lambda>m. row_id m = messageId) (messages d1));
                 d2 = d1\<lparr>messages := filter (\<lambda>m. row_id m \<noteq> messageId) (messages d1)\<rparr>
             in (0 < rowCount, d2)))"

text \<open>
  The schema's constraints on the tables the claims use: \<open>messages.id\<close> is the
  primary key, and \<open>attachments.message_id\<close> references it.
\<close>

definition schema_ok :: "db \<Rightarrow> bool" where
  "schema_ok d =
     (distinct (map row_id (messages d)) \<and>
      list_all (\<lambda>a. list_ex (\<lambda>m. row_id m = att_message_id a) (messages d)) (attachments d))"

text \<open>
  The requester of a delete is entitled to it when the requester key is the stored
  \<open>public_key\<close> of the message or is the admin key.
\<close>

definition authorized :: "db \<Rightarrow> string \<Rightarrow> string \<Rightarrow> string option \<Rightarrow> bool" where
  "authorized d messageId requesterKey adminKey =
     (list_ex (\<lambda>m. row_id m = messageId \<and> row_public_key m = Some requesterKey) (messages d) \<or>
      adminKey = Some requesterKey)"

subsection \<open>Reading messages back\<close>

text \<open>
  The attachment mapping shared by \<open>getMessagesForRoom\<close> and \<open>getMessagesByIds\<close>:
  a stored buffer becomes \<^verbatim>\<open>data:<type>;base64,<payload>\<close>, a \<open>NULL\<close> column the
  empty string. \<open>toBase64\<close> stands for \<open>Buffer.from(b).toString('base64')\<close>.
\<close>

definition toDataUrl :: "(bytes \<Rightarrow> string) \<Rightarrow> string \<Rightarrow> bytes option \<Rightarrow> string" where
  "toDataUrl toBase64 ty dat =
     (case dat of None \<Rightarrow> [] | Some b \<Rightarrow> ''data:'' @ ty @ '';base64,'' @ toBase64 b)"

definition hydrate :: "(bytes \<Rightarrow> string) \<Rightarrow> attachment_row \<Rightarrow> MessageAttachment" where
  "hydrate toBase64 att =
     \<lparr>a_name = att_name att, a_type = att_type att, a_size = att_size att,
      a_data = toDataUrl toBase64 (att_type att) (att_data att)\<rparr>"

text \<open>
  \<open>ORDER BY m.timestamp DESC\<close> has the timestamp as its only key. SQL leaves the
  order of rows with equal keys to the executor; the model keeps them in table order
  (a stable sort).
\<close>

definition orderByTimestampDesc :: "message_row list \<Rightarrow> message_row list" where
  "orderByTimestampDesc rows = sort_key (\<lambda>m. - row_timestamp m) rows"

text \<open>
  \<open>DBMessages.getMessagesForRoom\<close>, with \<open>LIMIT $2 OFFSET $3\<close> as \<open>take\<close> after
  \<open>drop\<close>. Each row is rewritten in place: state \<open>SAVED\<close>, \<open>publicKey\<close> from
  the column, \<open>attachments\<close> from a second query on \<open>message_id\<close>.
\<close>

definition getMessagesForRoom ::
  "(bytes \<Rightarrow> string) \<Rightarrow> db \<Rightarrow> string \<Rightarrow> nat \<Rightarrow> nat \<Rightarrow> ChatMessage list" where
  "getMessagesForRoom toBase64 d roomName limit offset =
     (case find (\<lambda>r. room_name r = roomName) (rooms d) of
        None \<Rightarrow> []
      | Some room \<Rightarrow>
          map (\<lambda>row.
                 \<lparr>m_id = row_id row, m_timestamp = row_timestamp row,
                  m_sender = row_sender row, m_content = row_content row,
                  m_publicKey = row_public_key row, m_signature = row_signature row,
                  m_state = Some SAVED,
                  m_attachments =
                    map (hydrate toBase64)
                      (filter (\<lambda>a. att_message_id a = row_id row) (attachments d))\<rparr>)
            (take limit (drop offset
               (orderByTimestampDesc
                  (filter (\<lambda>m. row_room_id m = room_id room) (messages d))))))"











subsection \<open>What a saved batch leaves in the store\<close>




fun numbered :: "nat \<Rightarrow> attachment_row list \<Rightarrow> attachment_row list" where
  "numbered seq [] = []"
| "numbered seq (r # rs) = r\<lparr>att_id := Suc seq\<rparr> # numbered (Suc seq) rs"


section \<open>The block list (platform code)\<close>

text \<open>
  Modelled from the spec: \<open>dbUsers.isUserBlocked\<close>, \<open>dbUsers.blockUser\<close> and
  \<open>dbUsers.deleteUserContent\<close> belong to the host platform and are not in the
  plugin's sources. The spec gives them as idempotent operations on \<open>blocked_keys\<close>,
  \<open>deleteUserContent\<close> removing all of the key's messages and their attachments
  across all rooms.
\<close>

definition isUserBlocked :: "db \<Rightarrow> string option \<Rightarrow> bool" where
  "isUserBlocked d key = (case key of None \<Rightarrow> False | Some k \<Rightarrow> k \<in> set (blocked_keys d))"

definition dbUsers_blockUser :: "string \<Rightarrow> db \<Rightarrow> db" where
  "dbUsers_blockUser k d =
     (if k \<in> set (blocked_keys d) then d else d\<lparr>blocked_keys := blocked_keys d @ [k]\<rparr>)"

definition dbUsers_deleteUserContent :: "string \<Rightarrow> db \<Rightarrow> db" where
  "dbUsers_deleteUserContent k d =
     (let gone = map row_id (filter (\<lambda>m. row_public_key m = Some k) (messages d))
      in d\<lparr>attachments := filter (\<lambda>a. att_message_id a \<notin> set gone) (attachments d),
           messages := filter (\<lambda>m. row_public_key m \<noteq> Some k) (messages d)\<rparr>)"

section \<open>WebRTCServer\<close>

text \<open>
  The live state: \<open>wss.clients\<close> (the sockets, iterated in insertion order), each
  socket's \<open>readyState\<close>, and \<open>clientsMap\<close> from socket to the room and user it
  joined as. \<open>cws.send(payload)\<close> is an entry (socket, frame) of the list of sends
  a handler returns.
\<close>

datatype readyState = CONNECTING | OPEN | CLOSING | CLOSED

type_synonym ws = nat

record User =
  u_name :: string
  u_publicKey :: string

record ClientInfo =
  ci_room :: string
  ci_user :: User

record hub =
  clients :: "ws list"
  readyStateOf :: "ws \<Rightarrow> readyState"
  clientsMap :: "ws \<rightharpoonup> ClientInfo"

datatype signalType = Offer | Answer | IceCandidate

record WebRTCSignal =
  sig_type :: signalType
  sig_id :: string
  sig_payload :: string
  sig_target :: "User option"
  sig_sender :: "User option"
  sig_room :: "string option"

record WebRTCBroadcast =
  b_room :: string
  b_message :: ChatMessage
  b_sender :: "User option"

datatype frame =
    SignalFrame WebRTCSignal
  | BroadcastFrame WebRTCBroadcast
  | AckFrame string
  | DeleteMsgFrame string string

text \<open>
  \<open>WebRTCServer.onSignaling\<close>. The room test of the loop is written
  \<open>clientInfo.room === clientInfo.room\<close> in the source and is kept so.
\<close>

definition onSignaling :: "hub \<Rightarrow> ws \<Rightarrow> WebRTCSignal \<Rightarrow> (ws \<times> frame) list" where
  "onSignaling h sock msg0 =
     (case sig_target msg0 of
        None \<Rightarrow> []
      | Some target \<Rightarrow>
          (case clientsMap h sock of
             None \<Rightarrow> []
           | Some fromClientInfo \<Rightarrow>
               (let msg = msg0\<lparr>sig_sender := Some (ci_user fromClientInfo),
                                sig_room := Some (ci_room fromClientInfo)\<rparr>
                in map (\<lambda>cws. (cws, SignalFrame msg))
                     (filter (\<lambda>cws.
                        case clientsMap h cws of
                          None \<Rightarrow> False
                        | Some clientInfo \<Rightarrow>
                            readyStateOf h cws = OPEN \<and>
                            ci_room clientInfo = ci_room clientInfo \<and>
                            u_publicKey (ci_user clientInfo) = u_publicKey target)
                        (clients h)))))"

text \<open>
  \<open>DBMessages.persistMessageToRoomName\<close>: a transaction around the lookup of the
  id, \<open>getOrCreateRoom\<close> (awaited, so its error rolls back and is thrown on) and a
  call of \<open>persistMessageToRoomId\<close> that is not awaited. The caller gets \<open>true\<close>
  whatever that call does later. Its first \<open>INSERT\<close> is issued before the
  transaction's \<open>COMMIT\<close>: when it is refused nothing was written by the call, and
  the failed statement makes the \<open>COMMIT\<close> undo the room's creation. The attachment
  inserts follow the first \<open>await\<close> of the call, after the \<open>COMMIT\<close> was issued:
  what they wrote before one of them is refused stays.
\<close>

definition persistMessageToRoomName ::
  "(string \<Rightarrow> bytes) \<Rightarrow> db \<Rightarrow> string \<Rightarrow> ChatMessage \<Rightarrow> (error + bool) \<times> ChatMessage \<times> db" where
  "persistMessageToRoomName fromBase64 d roomName message =
     (if list_ex (\<lambda>row. row_id row = m_id message) (messages d) then (Inr True, message, d)
      else case getOrCreateRoom d roomName of
        (Inl e, d1) \<Rightarrow> (Inl e, message, rollback d d1)
      | (Inr roomId, d1) \<Rightarrow>
          (case persistMessageToRoomId fromBase64 d1 roomId message of
             (Inr _, message', d2) \<Rightarrow> (Inr True, message', d2)
           | (Inl e, message', d2) \<Rightarrow>
               (Inr True, message', if d2 = d1 then rollback d d1 else d2)))"

text \<open>
  \<open>WebRTCServer.persist\<close>. \<open>verifySignature\<close> stands for
  \<open>crypt.verifySignature(data.message, canon.canonical_ChatMessage)\<close> of the
  platform. The frame is returned with the message as \<open>persistMessageToRoomId\<close>
  left it, since \<open>onBroadcast\<close> goes on with the same object. The function returns
  nothing; the first component is the error it throws, if any.
\<close>

definition persist ::
  "(ChatMessage \<Rightarrow> bool) \<Rightarrow> (string \<Rightarrow> bytes) \<Rightarrow> db \<Rightarrow> WebRTCBroadcast
     \<Rightarrow> error option \<times> WebRTCBroadcast \<times> db" where
  "persist verifySignature fromBase64 d data =
     (if b_room data \<noteq> [] then
        (if \<not> verifySignature (b_message data) then (None, data, d)
         else if isUserBlocked d (m_publicKey (b_message data)) then (None, data, d)
         else case persistMessageToRoomName fromBase64 d (b_room data) (b_message data) of
           (Inl e, message', d') \<Rightarrow> (Some e, data\<lparr>b_message := message'\<rparr>, d')
         | (Inr saved, message', d') \<Rightarrow> (None, data\<lparr>b_message := message'\<rparr>, d'))
      else (None, data, d))"

text \<open>
  \<open>WebRTCServer.onBroadcast\<close>: \<open>await this.persist(msg)\<close> returns nothing, and
  the fan-out loop follows it. When \<open>persist\<close> throws, the handler ends there.
\<close>

definition onBroadcast ::
  "(ChatMessage \<Rightarrow> bool) \<Rightarrow> (string \<Rightarrow> bytes) \<Rightarrow> hub \<Rightarrow> db \<Rightarrow> ws \<Rightarrow> WebRTCBroadcast
     \<Rightarrow> (ws \<times> frame) list \<times> db" where
  "onBroadcast verifySignature fromBase64 h d sock msg0 =
     (if b_room msg0 = [] then ([], d)
      else case persist verifySignature fromBase64 d msg0 of
        (Some e, msg1, d') \<Rightarrow> ([], d')
      | (None, msg1, d') \<Rightarrow>
          (case clientsMap h sock of
             None \<Rightarrow> ([], d')
           | Some senderClientInfo \<Rightarrow>
               (let msg = msg1\<lparr>b_sender := Some (ci_user senderClientInfo)\<rparr>
                in (map (\<lambda>cws. if cws = sock then (cws, AckFrame (m_id (b_message msg)))
                                else (cws, BroadcastFrame msg))
                      (filter (\<lambda>cws.
                         case clientsMap h cws of
                           None \<Rightarrow> False
                         | Some clientInfo \<Rightarrow>
                             readyStateOf h cws = OPEN \<and> ci_room clientInfo = b_room msg)
                         (clients h)),
                    d'))))"

text \<open>\<open>WebRTCServer.sendDeleteMessage\<close>.\<close>

definition sendDeleteMessage :: "hub \<Rightarrow> string \<Rightarrow> string \<Rightarrow> string \<Rightarrow> (ws \<times> frame) list" where
  "sendDeleteMessage h roomName messageId publicKey =
     map (\<lambda>cws. (cws, DeleteMsgFrame messageId roomName))
       (filter (\<lambda>cws.
          case clientsMap h cws of
            None \<Rightarrow> False
          | Some clientInfo \<Rightarrow>
              u_publicKey (ci_user clientInfo) \<noteq> publicKey \<and>
              readyStateOf h cws = OPEN \<and> ci_room clientInfo = roomName)
          (clients h))"

text \<open>
  The live members of a room: the sockets that joined it and are open; and the key a
  socket joined with.
\<close>

definition liveMember :: "hub \<Rightarrow> string \<Rightarrow> ws \<Rightarrow> bool" where
  "liveMember h roomName s =
     (case clientsMap h s of
        None \<Rightarrow> False
      | Some clientInfo \<Rightarrow> readyStateOf h s = OPEN \<and> ci_room clientInfo = roomName)"

definition memberKey :: "hub \<Rightarrow> ws \<Rightarrow> string option" where
  "memberKey h s = map_option (\<lambda>clientInfo. u_publicKey (ci_user clientInfo)) (clientsMap h s)"

section \<open>ChatService\<close>

text \<open>
  An HTTP response is its status code and its message. \<open>res.json(...)\<close> answers
  with status 200.

  Modelled from the spec: \<open>handleError\<close> is platform code; the spec has HTTP
  handlers turn a store error into a 5xx response with a short message.
\<close>

datatype httpResponse = Response nat string

definition handleError :: "error \<Rightarrow> string \<Rightarrow> httpResponse" where
  "handleError e message = Response 500 message"

definition quoted :: "string \<Rightarrow> string" where
  "quoted s = [CHR 0x22] @ s @ [CHR 0x22]"

text \<open>
  \<open>ChatService.deleteMessage\<close>. \<open>ADMIN_PUBLIC_KEY\<close> is read from the configuration
  and may be absent. The request is given by its body fields \<open>messageId\<close>,
  \<open>roomName\<close> and the \<open>public-key\<close> header. The result holds the response, the
  store and the frames sent to live clients.
\<close>

definition chatSvc_deleteMessage ::
  "string option \<Rightarrow> hub \<Rightarrow> db \<Rightarrow> string \<Rightarrow> string \<Rightarrow> string
     \<Rightarrow> httpResponse \<times> db \<times> (ws \<times> frame) list" where
  "chatSvc_deleteMessage ADMIN_PUBLIC_KEY h d messageId roomName publicKey =
     (if messageId = [] then (Response 400 ''Message ID is required'', d, [])
      else case deleteMessage d messageId publicKey ADMIN_PUBLIC_KEY of
        (success, d') \<Rightarrow>
          (let sent = sendDeleteMessage h roomName messageId publicKey
           in if success
              then (Response 200 (''Message '' @ quoted messageId @ '' deleted successfully''),
                    d', sent)
              else (Response 404
                      (''Message '' @ quoted messageId @ '' not found or could not be deleted''),
                    d', sent)))"

text \<open>
  \<open>ChatService.blockUser\<close>. The two store operations are the platform's; each is
  given as a function to the store it leaves and the error it threw, if any. Both
  calls stand in one \<open>try\<close> block whose \<open>catch\<close> calls \<open>handleError\<close>.
\<close>

definition chatSvc_blockUser ::
  "(string \<Rightarrow> db \<Rightarrow> error option \<times> db) \<Rightarrow> (string \<Rightarrow> db \<Rightarrow> error option \<times> db) \<Rightarrow>
     db \<Rightarrow> string \<Rightarrow> httpResponse \<times> db" where
  "chatSvc_blockUser deleteUserContent blockUser d publicKey =
     (if publicKey = [] then (Response 400 ''Missing pub_key parameter'', d)
      else case deleteUserContent publicKey d of
        (Some e, d1) \<Rightarrow> (handleError e ''Server error while attempting to block user'', d1)
      | (None, d1) \<Rightarrow>
          (case blockUser publicKey d1 of
             (Some e, d2) \<Rightarrow> (handleError e ''Server error while attempting to block user'', d2)
           | (None, d2) \<Rightarrow> (Response 200 ''User was blocked successfully.'', d2)))"

section \<open>The client's sync pass\<close>

text \<open>
  \<open>AppRooms.cleanRoomMessages\<close>: the retention filter run on the cached list before
  the sync. \<open>chatDaysOfHistory || 30\<close> turns an unset or zero setting into 30.
\<close>

definition cleanRoomMessages :: "int \<Rightarrow> nat \<Rightarrow> ChatMessage list \<Rightarrow> bool \<times> ChatMessage list" where
  "cleanRoomMessages now chatDaysOfHistory msgs =
     (let days0 = (if chatDaysOfHistory = 0 then 30 else chatDaysOfHistory);
          days = (if days0 < 2 then 2 else days0);
          daysInMs = int days * 24 * 60 * 60 * 1000;
          hadOldMessages = list_ex (\<lambda>msg. now - m_timestamp msg \<ge> daysInMs) msgs
      in if hadOldMessages
         then (True, filter (\<lambda>msg. now - m_timestamp msg < daysInMs) msgs)
         else (False, msgs))"

text \<open>
  The callback of \<open>messages.filter(...)\<close> in \<open>loadRoomMessages\<close>: it marks a
  message the server has as \<open>SAVED\<close>, drops a \<open>SAVED\<close> message the server lacks, and
  raises \<open>messagesDirty\<close> on either change.
\<close>

fun syncFilter :: "string list \<Rightarrow> ChatMessage list \<Rightarrow> bool \<Rightarrow> ChatMessage list \<times> bool" where
  "syncFilter serverIds [] dirty = ([], dirty)"
| "syncFilter serverIds (msg # rest) dirty =
     (if m_id msg \<in> set serverIds then
        (if m_state msg \<noteq> Some SAVED
         then (case syncFilter serverIds rest True of
                 (kept, dirty') \<Rightarrow> (msg\<lparr>m_state := Some SAVED\<rparr> # kept, dirty'))
         else (case syncFilter serverIds rest dirty of
                 (kept, dirty') \<Rightarrow> (msg # kept, dirty')))
      else if m_state msg = Some SAVED then syncFilter serverIds rest True
      else (case syncFilter serverIds rest dirty of
              (kept, dirty') \<Rightarrow> (msg # kept, dirty')))"

text \<open>
  \<open>AppMessages.loadRoomMessages\<close>. \<open>roomData\<close> is the cached list of the room
  (\<open>None\<close> when the cache has none or cannot be read), \<open>respIds\<close> the id list the
  server answers with (\<open>None\<close> when the request throws) and \<open>httpPost\<close> the
  answer to the fetch by ids. \<open>Array.prototype.sort\<close> with
  \<open>a.timestamp - b.timestamp\<close> is a stable sort on the timestamp. The result is the
  returned list and the list written by \<open>saveMessages\<close>, if any.
\<close>

definition loadRoomMessages ::
  "bool \<Rightarrow> int \<Rightarrow> nat \<Rightarrow> ChatMessage list option \<Rightarrow> string list option \<Rightarrow>
     (string list \<Rightarrow> ChatMessage list option) \<Rightarrow> ChatMessage list \<times> ChatMessage list option" where
  "loadRoomMessages chatSaveToServer now chatDaysOfHistory roomData respIds httpPost =
     (let messages0 =
            (case roomData of None \<Rightarrow> []
             | Some cached \<Rightarrow> snd (cleanRoomMessages now chatDaysOfHistory cached))
      in if \<not> chatSaveToServer then (messages0, None)
         else case respIds of
           None \<Rightarrow> (messages0, None)
         | Some serverMessageIds \<Rightarrow>
             if serverMessageIds = [] then (messages0, None)
             else case syncFilter serverMessageIds messages0 False of
               (messages1, dirty) \<Rightarrow>
                 (let missingIds =
                        filter (\<lambda>i. i \<notin> set (map m_id messages1)) serverMessageIds
                  in if missingIds \<noteq> [] then
                       (case httpPost missingIds of
                          None \<Rightarrow> (messages1, None)
                        | Some fetched \<Rightarrow>
                            if fetched \<noteq> [] then
                              (let merged = sort_key m_timestamp (messages1 @ fetched)
                               in (merged, Some merged))
                            else (messages1, if dirty then Some messages1 else None))
                     else (messages1, if dirty then Some messages1 else None)))"

section \<open>Example states\<close>

text \<open>
  A store with two rooms, one message in each and one attachment, used to run the
  operations on concrete input.
\<close>

definition ex_db :: db where
  "ex_db =
     \<lparr>rooms = [\<lparr>room_id = 1, room_name = ''r1''\<rparr>, \<lparr>room_id = 2, room_name = ''r2''\<rparr>],
      messages =
        [\<lparr>row_id = ''m3'', row_state = Some SAVED, row_room_id = 1, row_timestamp = 1000,
          row_sender = ''alice'', row_content = ''hi'', row_public_key = Some ''keyA'',
          row_signature = Some ''sigA''\<rparr>,
         \<lparr>row_id = ''m4'', row_state = Some SAVED, row_room_id = 2, row_timestamp = 1000,
          row_sender = ''bob'', row_content = ''yo'', row_public_key = Some ''keyB'',
          row_signature = Some ''sigB''\<rparr>],
      attachments =
        [\<lparr>att_id = 1, att_message_id = ''m3'', att_name = ''f.txt'', att_type = ''text/plain'',
          att_size = 2, att_data = Some [104, 105]\<rparr>],
      blocked_keys = [],
      rooms_id_seq = 2,
      attachments_id_seq = 1\<rparr>"

text \<open>
  A hub with five sockets: \<open>alice\<close>, \<open>bob\<close> and \<open>carol\<close> joined room \<open>r1\<close>,
  \<open>dave\<close> joined \<open>r2\<close>, and socket 4 never joined. Socket 2 is closing.
\<close>

definition alice :: User where "alice = \<lparr>u_name = ''alice'', u_publicKey = ''keyA''\<rparr>"
definition bob :: User where "bob = \<lparr>u_name = ''bob'', u_publicKey = ''keyB''\<rparr>"
definition carol :: User where "carol = \<lparr>u_name = ''carol'', u_publicKey = ''keyC''\<rparr>"
definition dave :: User where "dave = \<lparr>u_name = ''dave'', u_publicKey = ''keyD''\<rparr>"

definition ex_hub :: hub where
  "ex_hub =
     \<lparr>clients = [0, 1, 2, 3, 4],
      readyStateOf = (\<lambda>s. if s = 2 then CLOSING else OPEN),
      clientsMap =
        [0 \<mapsto> \<lparr>ci_room = ''r1'', ci_user = alice\<rparr>,
         1 \<mapsto> \<lparr>ci_room = ''r1'', ci_user = bob\<rparr>,
         2 \<mapsto> \<lparr>ci_room = ''r1'', ci_user = carol\<rparr>,
         3 \<mapsto> \<lparr>ci_room = ''r2'', ci_user = dave\<rparr>]\<rparr>"

definition ex_offer :: WebRTCSignal where
  "ex_offer =
     \<lparr>sig_type = Offer, sig_id = ''s1'', sig_payload = ''sdp'',
      sig_target = Some dave, sig_sender = None, sig_room = Some ''r1''\<rparr>"

definition ex_m2 :: ChatMessage where
  "ex_m2 =
     \<lparr>m_id = ''m2'', m_timestamp = 2000, m_sender = ''alice'', m_content = ''again'',
      m_publicKey = Some ''keyA'', m_signature = Some ''sigA'', m_state = None,
      m_attachments = []\<rparr>"





definition ex_broadcast :: WebRTCBroadcast where
  "ex_broadcast = \<lparr>b_room = ''r1'', b_message = ex_m2, b_sender = None\<rparr>"

definition ex_db_blocked :: db where
  "ex_db_blocked = ex_db\<lparr>blocked_keys := [''keyA'']\<rparr>"

text \<open>
  A store whose room \<open>r1\<close> holds three messages with the same timestamp, inserted
  in the order \<open>b\<close>, \<open>a\<close>, \<open>c\<close>, and a newer one.
\<close>

definition tie_row :: "string \<Rightarrow> int \<Rightarrow> message_row" where
  "tie_row i t =
     \<lparr>row_id = i, row_state = Some SAVED, row_room_id = 1, row_timestamp = t,
      row_sender = ''alice'', row_content = ''x'', row_public_key = Some ''keyA'',
      row_signature = Some ''sigA''\<rparr>"

definition ex_db_ties :: db where
  "ex_db_ties =
     \<lparr>rooms = [\<lparr>room_id = 1, room_name = ''r1''\<rparr>],
      messages = [tie_row ''b'' 1000, tie_row ''a'' 1000, tie_row ''c'' 1000, tie_row ''z'' 2000],
      attachments =
        [\<lparr>att_id = 1, att_message_id = ''z'', att_name = ''f.txt'', att_type = ''text/plain'',
          att_size = 2, att_data = Some [104, 105]\<rparr>],
      blocked_keys = [],
      rooms_id_seq = 1,
      attachments_id_seq = 1\<rparr>"

text \<open>
  A client cache with \<open>m10\<close> and \<open>m11\<close> saved and \<open>m12\<close> sent but not
  acknowledged, and a server that answers a fetch by ids with \<open>m13\<close>.
\<close>

definition cached_msg :: "string \<Rightarrow> int \<Rightarrow> MessageStates \<Rightarrow> ChatMessage" where
  "cached_msg i t st =
     \<lparr>m_id = i, m_timestamp = t, m_sender = ''alice'', m_content = ''x'',
      m_publicKey = Some ''keyA'', m_signature = Some ''sigA'', m_state = Some st,
      m_attachments = []\<rparr>"

definition ex_cache :: "ChatMessage list" where
  "ex_cache = [cached_msg ''m10'' 1000 SAVED, cached_msg ''m11'' 1100 SAVED,
               cached_msg ''m12'' 1300 SENT]"

definition ex_fetch :: "string list \<Rightarrow> ChatMessage list option" where
  "ex_fetch ids = Some (if ''m13'' \<in> set ids then [cached_msg ''m13'' 1200 SAVED] else [])"

text \<open>
  Store operations that can fail, for \<open>chatSvc_blockUser\<close>: the platform's two
  operations when they succeed, and a content deletion that throws and leaves the
  store as it was.
\<close>

definition deleteUserContent_ok :: "string \<Rightarrow> db \<Rightarrow> error option \<times> db" where
  "deleteUserContent_ok k d = (None, dbUsers_deleteUserContent k d)"

definition blockUser_ok :: "string \<Rightarrow> db \<Rightarrow> error option \<times> db" where
  "blockUser_ok k d = (None, dbUsers_blockUser k d)"

definition deleteUserContent_failing :: "string \<Rightarrow> db \<Rightarrow> error option \<times> db" where
  "deleteUserContent_failing k d = (Some (StoreFailure ''connection lost''), d)"

text \<open>
  Stand-ins for the platform's functions on concrete input: a verifier that accepts
  every message, one that rejects every message, and fixed base64 codecs (the
  attachment of the examples holds the bytes of \<open>hi\<close>, in base64 \<open>aGk=\<close>).
\<close>

definition verify_accepts :: "ChatMessage \<Rightarrow> bool" where
  "verify_accepts m = True"

definition verify_rejects :: "ChatMessage \<Rightarrow> bool" where
  "verify_rejects m = False"

definition ex_fromBase64 :: "string \<Rightarrow> bytes" where
  "ex_fromBase64 s = [104, 105]"

definition ex_toBase64 :: "bytes \<Rightarrow> string" where
  "ex_toBase64 b = ''aGk=''"

section \<open>Properties of the store\<close>

subsection \<open>Deleting a message\<close>

lemma filter_id_distinct:
  "distinct (map row_id ms) \<Longrightarrow> m \<in> set ms \<Longrightarrow> filter (\<lambda>x. row_id x = row_id m) ms = [m]"
proof (induction ms)
  case Nil
  then show ?case by simp
next
  case (Cons a ms)
  show ?case
  proof (cases "a = m")
    case True
    have "filter (\<lambda>x. row_id x = row_id m) ms = []"
      using Cons.prems True by (auto simp: filter_empty_conv image_iff)
    then show ?thesis using True by simp
  next
    case False
    then have "m \<in> set ms" using Cons.prems by simp
    moreover have "row_id a \<noteq> row_id m" using Cons.prems \<open>m \<in> set ms\<close> by auto
    ultimately show ?thesis using Cons by simp
  qed
qed

lemma deleteMessage_unauthorized:
  assumes na: "\<not> authorized d mid pk adm"
  shows "deleteMessage d mid pk adm = (False, d)"
proof (cases "filter (\<lambda>m. row_id m = mid) (messages d)")
  case Nil
  then show ?thesis by (simp add: deleteMessage_def)
next
  case (Cons r rs)
  then have "r \<in> set (filter (\<lambda>m. row_id m = mid) (messages d))" by simp
  then have "r \<in> set (messages d)" "row_id r = mid" by auto
  with na have "row_public_key r \<noteq> Some pk" "Some pk \<noteq> adm"
    by (auto simp: authorized_def list_ex_iff)
  with Cons show ?thesis by (simp add: deleteMessage_def)
qed

lemma deleteMessage_authorized:
  assumes ok: "schema_ok d" and au: "authorized d mid pk adm"
  shows "deleteMessage d mid pk adm =
           (list_ex (\<lambda>m. row_id m = mid) (messages d),
            d\<lparr>attachments := filter (\<lambda>a. att_message_id a \<noteq> mid) (attachments d),
              messages := filter (\<lambda>m. row_id m \<noteq> mid) (messages d)\<rparr>)"
proof (cases "filter (\<lambda>m. row_id m = mid) (messages d)")
  case Nil
  then have none: "\<forall>m \<in> set (messages d). row_id m \<noteq> mid"
    by (simp add: filter_empty_conv)
  then have m: "filter (\<lambda>m. row_id m \<noteq> mid) (messages d) = messages d"
    by (simp add: filter_id_conv)
  have "\<forall>a \<in> set (attachments d). att_message_id a \<noteq> mid"
    using ok none by (auto simp: schema_ok_def list_all_iff list_ex_iff)
  then have a: "filter (\<lambda>a. att_message_id a \<noteq> mid) (attachments d) = attachments d"
    by (simp add: filter_id_conv)
  have "\<not> list_ex (\<lambda>m. row_id m = mid) (messages d)"
    using none by (simp add: list_ex_iff)
  then show ?thesis using Nil m a by (simp add: deleteMessage_def)
next
  case (Cons r rs)
  then have rin: "r \<in> set (filter (\<lambda>m. row_id m = mid) (messages d))" by simp
  then have r: "r \<in> set (messages d)" "row_id r = mid" by auto
  have one: "filter (\<lambda>m. row_id m = mid) (messages d) = [r]"
    using filter_id_distinct[of "messages d" r] ok r by (simp add: schema_ok_def)
  have key: "row_public_key r = Some pk \<or> adm = Some pk"
  proof (cases "adm = Some pk")
    case True
    then show ?thesis by simp
  next
    case False
    with au obtain m where m: "m \<in> set (messages d)" "row_id m = mid" "row_public_key m = Some pk"
      by (auto simp: authorized_def list_ex_iff)
    then have "m \<in> set (filter (\<lambda>m. row_id m = mid) (messages d))" by simp
    with one have "m = r" by simp
    with m show ?thesis by simp
  qed
  have ex: "list_ex (\<lambda>m. row_id m = mid) (messages d)"
    using r by (auto simp: list_ex_iff)
  from key have nb: "\<not> (row_public_key r \<noteq> Some pk \<and> Some pk \<noteq> adm)" by auto
  show ?thesis using one nb ex by (simp add: deleteMessage_def Let_def)
qed

text \<open>
  Claim C5. \<open>deleteMessage\<close> returns \<open>false\<close> and leaves the store as it is unless
  the requester key is the stored \<open>public_key\<close> of the message or the admin key.
  For an entitled requester, on a store that meets the schema's key constraints, it
  removes every attachment of the message and the message row, touches nothing else,
  and returns whether a message row was there to remove.
\<close>

theorem deleteMessage_guarded:
  "(\<not> authorized d messageId requesterKey adminKey \<longrightarrow>
      deleteMessage d messageId requesterKey adminKey = (False, d)) \<and>
   (schema_ok d \<and> authorized d messageId requesterKey adminKey \<longrightarrow>
      deleteMessage d messageId requesterKey adminKey =
        (list_ex (\<lambda>m. row_id m = messageId) (messages d),
         d\<lparr>attachments := filter (\<lambda>a. att_message_id a \<noteq> messageId) (attachments d),
           messages := filter (\<lambda>m. row_id m \<noteq> messageId) (messages d)\<rparr>))"
  using deleteMessage_unauthorized deleteMessage_authorized by blast

text \<open>
  On the example store: \<open>keyB\<close> may not delete \<open>m3\<close>; its owner \<open>keyA\<close> may, and
  the attachment goes with it; the admin key deletes \<open>m4\<close>.
\<close>

theorem deleteMessage_guarded_witness:
  "\<not> authorized ex_db ''m3'' ''keyB'' (Some ''adminKey'') \<and>
   deleteMessage ex_db ''m3'' ''keyB'' (Some ''adminKey'') = (False, ex_db) \<and>
   schema_ok ex_db \<and> authorized ex_db ''m3'' ''keyA'' (Some ''adminKey'') \<and>
   deleteMessage ex_db ''m3'' ''keyA'' (Some ''adminKey'') =
     (True, ex_db\<lparr>attachments := [], messages := [messages ex_db ! 1]\<rparr>) \<and>
   authorized ex_db ''m4'' ''adminKey'' (Some ''adminKey'') \<and>
   deleteMessage ex_db ''m4'' ''adminKey'' (Some ''adminKey'') =
     (True, ex_db\<lparr>messages := [messages ex_db ! 0]\<rparr>)"
proof -
  have a: "\<not> authorized ex_db ''m3'' ''keyB'' (Some ''adminKey'')"
    by (simp add: authorized_def ex_db_def)
  have b: "schema_ok ex_db" by (simp add: schema_ok_def ex_db_def)
  have c: "authorized ex_db ''m3'' ''keyA'' (Some ''adminKey'')"
    by (simp add: authorized_def ex_db_def)
  have e: "authorized ex_db ''m4'' ''adminKey'' (Some ''adminKey'')"
    by (simp add: authorized_def)
  show ?thesis
    using a b c e
      deleteMessage_guarded [of ex_db "''m3''" "''keyB''" "Some ''adminKey''"]
      deleteMessage_guarded [of ex_db "''m3''" "''keyA''" "Some ''adminKey''"]
      deleteMessage_guarded [of ex_db "''m4''" "''adminKey''" "Some ''adminKey''"]
    by (simp add: ex_db_def)
qed

subsection \<open>Saving a batch\<close>



lemma numbered_length: "length (numbered seq xs) = length xs"
  by (induction xs arbitrary: seq) simp_all























subsection \<open>Fetching messages by id\<close>











subsection \<open>Reading a room's history\<close>

lemma orderByTimestampDesc_sorted:
  "sorted (map (\<lambda>m. - row_timestamp m) (take n (drop k (orderByTimestampDesc rows))))"
proof -
  have "sorted (map (\<lambda>m. - row_timestamp m) (orderByTimestampDesc rows))"
    by (simp add: orderByTimestampDesc_def)
  then have "sorted (take n (drop k (map (\<lambda>m. - row_timestamp m) (orderByTimestampDesc rows))))"
    by (intro sorted_wrt_take sorted_wrt_drop)
  then show ?thesis by (simp add: take_map drop_map)
qed

lemma hydrate_data:
  "a_data (hydrate toBase64 att) =
     (case att_data att of
        None \<Rightarrow> []
      | Some b \<Rightarrow> ''data:'' @ att_type att @ '';base64,'' @ toBase64 b)"
  by (simp add: hydrate_def toDataUrl_def)

text \<open>
  Claim C7, as amended. \<open>getMessagesForRoom\<close> returns at most \<open>limit\<close> messages,
  newest first by timestamp (no order is promised among equal timestamps). Each has
  state \<open>SAVED\<close> and carries one attachment per stored attachment row of its id,
  whose data is the stored bytes as a data URL of the stored type, or the empty string
  when no bytes are stored.
\<close>

theorem getMessagesForRoom_newest_first:
  "sorted_wrt (\<lambda>a b. m_timestamp b \<le> m_timestamp a)
     (getMessagesForRoom toBase64 d roomName limit offset) \<and>
   length (getMessagesForRoom toBase64 d roomName limit offset) \<le> limit \<and>
   list_all (\<lambda>m. m_state m = Some SAVED \<and>
                  m_attachments m =
                    map (hydrate toBase64)
                      (filter (\<lambda>a. att_message_id a = m_id m) (attachments d)))
     (getMessagesForRoom toBase64 d roomName limit offset) \<and>
   (\<forall>att. a_data (hydrate toBase64 att) =
      (case att_data att of
         None \<Rightarrow> []
       | Some b \<Rightarrow> ''data:'' @ att_type att @ '';base64,'' @ toBase64 b))"
proof (cases "find (\<lambda>r. room_name r = roomName) (rooms d)")
  case None
  then show ?thesis by (simp add: getMessagesForRoom_def hydrate_data)
next
  case (Some room)
  let ?rows = "take limit (drop offset
                 (orderByTimestampDesc (filter (\<lambda>m. row_room_id m = room_id room) (messages d))))"
  have s: "sorted (map (\<lambda>m. - row_timestamp m) ?rows)"
    by (rule orderByTimestampDesc_sorted)
  have "sorted_wrt (\<lambda>a b. row_timestamp b \<le> row_timestamp a) ?rows"
    using s by (simp add: sorted_map)
  then have a: "sorted_wrt (\<lambda>a b. m_timestamp b \<le> m_timestamp a)
                  (getMessagesForRoom toBase64 d roomName limit offset)"
    using Some by (simp add: getMessagesForRoom_def sorted_wrt_map)
  have b: "length (getMessagesForRoom toBase64 d roomName limit offset) \<le> limit"
    using Some by (simp add: getMessagesForRoom_def)
  have c: "list_all (\<lambda>m. m_state m = Some SAVED \<and>
                  m_attachments m =
                    map (hydrate toBase64)
                      (filter (\<lambda>a. att_message_id a = m_id m) (attachments d)))
     (getMessagesForRoom toBase64 d roomName limit offset)"
    using Some by (simp add: getMessagesForRoom_def list_all_iff)
  show ?thesis using a b c by (simp add: hydrate_data)
qed

text \<open>
  On the store with ties, room \<open>r1\<close> is read newest first, and the attachment of
  \<open>z\<close> comes back as a data URL.
\<close>

theorem getMessagesForRoom_newest_first_witness:
  "sorted_wrt (\<lambda>a b. m_timestamp b \<le> m_timestamp a)
     (getMessagesForRoom ex_toBase64 ex_db_ties ''r1'' 100 0) \<and>
   map m_timestamp (getMessagesForRoom ex_toBase64 ex_db_ties ''r1'' 2 0) = [2000, 1000] \<and>
   map a_data (m_attachments (hd (getMessagesForRoom ex_toBase64 ex_db_ties ''r1'' 2 0))) =
     [''data:text/plain;base64,aGk='']"
proof -
  have v: "getMessagesForRoom ex_toBase64 ex_db_ties ''r1'' 2 0 \<noteq> []"
    by (simp add: getMessagesForRoom_def orderByTimestampDesc_def ex_db_ties_def tie_row_def)
  have t: "map m_timestamp (getMessagesForRoom ex_toBase64 ex_db_ties ''r1'' 2 0) = [2000, 1000]"
    by (simp add: getMessagesForRoom_def orderByTimestampDesc_def ex_db_ties_def tie_row_def)
  have i: "m_id (hd (getMessagesForRoom ex_toBase64 ex_db_ties ''r1'' 2 0)) = ''z''"
    by (simp add: getMessagesForRoom_def orderByTimestampDesc_def ex_db_ties_def tie_row_def)
  have h: "hd (getMessagesForRoom ex_toBase64 ex_db_ties ''r1'' 2 0)
             \<in> set (getMessagesForRoom ex_toBase64 ex_db_ties ''r1'' 2 0)"
    using v by simp
  note w1 = getMessagesForRoom_newest_first [of ex_toBase64 ex_db_ties "''r1''" 100 0]
  note w2 = getMessagesForRoom_newest_first [of ex_toBase64 ex_db_ties "''r1''" 2 0]
  have "m_attachments (hd (getMessagesForRoom ex_toBase64 ex_db_ties ''r1'' 2 0)) =
          map (hydrate ex_toBase64)
            (filter (\<lambda>a. att_message_id a = ''z'') (attachments ex_db_ties))"
    using w2 h i by (simp add: list_all_iff)
  then have "map a_data (m_attachments (hd (getMessagesForRoom ex_toBase64 ex_db_ties ''r1'' 2 0)))
              = [''data:text/plain;base64,aGk='']"
    using w2 by (simp add: ex_db_ties_def ex_toBase64_def)
  then show ?thesis using w1 t by simp
qed

text \<open>
  The claim as stated fails: the query has the timestamp as its only sort key, and
  the three messages of equal timestamp come back as the table holds them, \<open>b\<close>,
  \<open>a\<close>, \<open>c\<close>, which is not an order by message id.
\<close>

theorem getMessagesForRoom_ties_unordered:
  "map m_id (getMessagesForRoom ex_toBase64 ex_db_ties ''r1'' 100 0) =
     [''z'', ''b'', ''a'', ''c''] \<and>
   map m_timestamp (getMessagesForRoom ex_toBase64 ex_db_ties ''r1'' 100 0) =
     [2000, 1000, 1000, 1000]"
  by (simp add: getMessagesForRoom_def orderByTimestampDesc_def ex_db_ties_def tie_row_def)

section \<open>Properties of the hub and the HTTP handlers\<close>

subsection \<open>Signaling\<close>

text \<open>
  Claim C3, on a failing input. \<open>alice\<close>, registered in room \<open>r1\<close>, sends an offer
  whose target key is \<open>dave\<close>'s; \<open>dave\<close> is registered in room \<open>r2\<close> only. The
  loop's room test compares a client's room with itself, so the frame goes to
  \<open>dave\<close>'s socket in the other room.
\<close>

theorem onSignaling_crosses_rooms:
  "clientsMap ex_hub 0 = Some \<lparr>ci_room = ''r1'', ci_user = alice\<rparr> \<and>
   clientsMap ex_hub 3 = Some \<lparr>ci_room = ''r2'', ci_user = dave\<rparr> \<and>
   onSignaling ex_hub 0 ex_offer =
     [(3, SignalFrame (ex_offer\<lparr>sig_sender := Some alice, sig_room := Some ''r1''\<rparr>))]"
  by (simp add: onSignaling_def ex_hub_def ex_offer_def alice_def bob_def carol_def dave_def)

subsection \<open>The broadcast pipeline\<close>

lemma insertAttachments_messages:
  "messages (snd (insertAttachments f i d as)) = messages d"
proof (induction as arbitrary: d)
  case Nil
  then show ?case by simp
next
  case (Cons a as)
  obtain r d1 where i: "insertAttachment f i d a = (r, d1)"
    by (cases "insertAttachment f i d a")
  then have "messages d1 = messages d"
    by (auto simp: insertAttachment_def Let_def split: if_splits)
  then show ?case using i Cons.IH [of d1] by (cases r) simp_all
qed

lemma persistMessageToRoomId_rows:
  "set (messages (snd (snd (persistMessageToRoomId f d roomId m)))) \<subseteq>
     set (messages d) \<union> {row. row_id row = m_id m}"
proof -
  let ?m = "m\<lparr>m_state := Some SAVED\<rparr>"
  obtain r d1 where i: "insertMessageRow d roomId ?m = (r, d1)"
    by (cases "insertMessageRow d roomId ?m")
  then have d1: "set (messages d1) \<subseteq> set (messages d) \<union> {row. row_id row = m_id m}"
    by (auto simp: insertMessageRow_def split: if_splits)
  obtain q d2 where a: "insertAttachments f (m_id m) d1 (m_attachments m) = (q, d2)"
    by (cases "insertAttachments f (m_id m) d1 (m_attachments m)")
  then have d2: "messages d2 = messages d1"
    using insertAttachments_messages [of f "m_id m" d1 "m_attachments m"] by simp
  show ?thesis
    using d1 d2
    by (cases r; cases q) (simp_all add: persistMessageToRoomId_def Let_def i a)
qed

lemma getOrCreateRoom_messages:
  "messages (snd (getOrCreateRoom d n)) = messages d"
  by (simp add: getOrCreateRoom_def Let_def split: option.splits)

lemma persistMessageToRoomName_rows:
  "set (messages (snd (snd (persistMessageToRoomName f d roomName m)))) \<subseteq>
     set (messages d) \<union> {row. row_id row = m_id m}"
proof (cases "list_ex (\<lambda>row. row_id row = m_id m) (messages d)")
  case True
  then show ?thesis by (simp add: persistMessageToRoomName_def)
next
  case False
  obtain r d1 where g: "getOrCreateRoom d roomName = (r, d1)"
    by (cases "getOrCreateRoom d roomName")
  then have m1: "messages d1 = messages d"
    using getOrCreateRoom_messages [of d roomName] by simp
  show ?thesis
  proof (cases r)
    case (Inl e)
    then show ?thesis using False g
      by (simp add: persistMessageToRoomName_def rollback_def)
  next
    case (Inr roomId)
    obtain q m' d2 where p: "persistMessageToRoomId f d1 roomId m = (q, m', d2)"
      by (cases "persistMessageToRoomId f d1 roomId m") auto
    have "set (messages d2) \<subseteq> set (messages d) \<union> {row. row_id row = m_id m}"
      using persistMessageToRoomId_rows [of f d1 roomId m] p m1 by simp
    then show ?thesis using False g Inr p
      by (cases q) (auto simp: persistMessageToRoomName_def rollback_def)
  qed
qed

lemma persist_refused:
  "\<not> verifySignature (b_message msg) \<or> isUserBlocked d (m_publicKey (b_message msg)) \<Longrightarrow>
   persist verifySignature f d msg = (None, msg, d)"
  by (auto simp: persist_def)

lemma onBroadcast_store:
  "snd (onBroadcast verifySignature f h d sock msg) = snd (snd (persist verifySignature f d msg))"
  by (simp add: onBroadcast_def persist_def Let_def split: prod.splits option.splits sum.splits)

text \<open>
  What the pipeline keeps of the two checks: a frame whose message fails
  verification, or carries a blocked key, leaves the store as it was; and every row
  of \<open>messages\<close> that a broadcast adds is the row of the frame's message, which
  passed verification and was not blocked then.
\<close>

lemma refused_broadcast_inserts_nothing:
  assumes "\<not> verifySignature (b_message msg) \<or> isUserBlocked d (m_publicKey (b_message msg))"
  shows "snd (onBroadcast verifySignature fromBase64 h d sock msg) = d"
  using assms persist_refused [of verifySignature msg d fromBase64]
  by (simp add: onBroadcast_store)

lemma broadcast_rows_verified:
  assumes "row \<in> set (messages (snd (onBroadcast verifySignature fromBase64 h d sock msg)))"
    and "row \<notin> set (messages d)"
  shows "verifySignature (b_message msg) \<and>
         \<not> isUserBlocked d (m_publicKey (b_message msg)) \<and>
         row_id row = m_id (b_message msg)"
proof -
  from assms have a: "row \<in> set (messages (snd (snd (persist verifySignature fromBase64 d msg))))"
    by (simp add: onBroadcast_store)
  have run: "verifySignature (b_message msg) \<and> \<not> isUserBlocked d (m_publicKey (b_message msg))
             \<and> b_room msg \<noteq> []"
    using a assms(2) by (auto simp: persist_def split: if_splits)
  then have "snd (snd (persist verifySignature fromBase64 d msg)) =
             snd (snd (persistMessageToRoomName fromBase64 d (b_room msg) (b_message msg)))"
    by (simp add: persist_def split: prod.splits sum.splits)
  with a assms(2) persistMessageToRoomName_rows [of fromBase64 d "b_room msg" "b_message msg"]
  have "row_id row = m_id (b_message msg)" by auto
  with run show ?thesis by simp
qed

text \<open>
  Claim C1, on a failing input. \<open>keyA\<close> is on the block list and the verifier
  accepts. \<open>alice\<close> broadcasts \<open>m2\<close>, signed with \<open>keyA\<close>, to room \<open>r1\<close>.
  \<open>persist\<close> refuses the message and the store stays as it was, and the loop
  that follows still sends the full frame to \<open>bob\<close> and the ack to \<open>alice\<close>.
\<close>

theorem blocked_broadcast_still_fans_out:
  "isUserBlocked ex_db_blocked (m_publicKey (b_message ex_broadcast)) \<and>
   onBroadcast verify_accepts ex_fromBase64 ex_hub ex_db_blocked 0 ex_broadcast =
     ([(0, AckFrame ''m2''), (1, BroadcastFrame (ex_broadcast\<lparr>b_sender := Some alice\<rparr>))],
      ex_db_blocked)"
  by (simp add: onBroadcast_def persist_def isUserBlocked_def ex_db_blocked_def
      verify_accepts_def ex_broadcast_def ex_m2_def ex_hub_def alice_def bob_def
      carol_def dave_def)

text \<open>
  Claim C2, on a failing input. The verifier rejects. \<open>alice\<close> broadcasts \<open>m2\<close>
  to room \<open>r1\<close>. \<open>persist\<close> refuses the message and the store stays as it was,
  and the loop that follows still sends the full frame to \<open>bob\<close> and the ack to
  \<open>alice\<close>.
\<close>

theorem unverified_broadcast_still_fans_out:
  "verify_rejects (b_message ex_broadcast) = False \<and>
   onBroadcast verify_rejects ex_fromBase64 ex_hub ex_db 0 ex_broadcast =
     ([(0, AckFrame ''m2''), (1, BroadcastFrame (ex_broadcast\<lparr>b_sender := Some alice\<rparr>))],
      ex_db)"
  by (simp add: onBroadcast_def persist_def verify_rejects_def ex_broadcast_def ex_m2_def
      ex_hub_def alice_def bob_def carol_def dave_def)

subsection \<open>Deleting a message over HTTP\<close>

lemma sendDeleteMessage_recipients:
  "map fst (sendDeleteMessage h roomName messageId publicKey) =
     filter (\<lambda>s. liveMember h roomName s \<and> memberKey h s \<noteq> Some publicKey) (clients h)"
  unfolding sendDeleteMessage_def liveMember_def memberKey_def
  by (auto simp: comp_def intro!: filter_cong split: option.splits)

lemma sendDeleteMessage_frames:
  "list_all (\<lambda>p. snd p = DeleteMsgFrame messageId roomName)
     (sendDeleteMessage h roomName messageId publicKey)"
  by (simp add: sendDeleteMessage_def list_all_iff)

lemma deleteMessage_missing:
  assumes "\<not> list_ex (\<lambda>m. row_id m = mid) (messages d)"
  shows "deleteMessage d mid pk adm = (False, d)"
proof -
  from assms have "filter (\<lambda>m. row_id m = mid) (messages d) = []"
    by (simp add: list_ex_iff filter_empty_conv)
  then show ?thesis by (simp add: deleteMessage_def)
qed

lemma chatSvc_deleteMessage_sent:
  "messageId \<noteq> [] \<Longrightarrow>
   snd (snd (chatSvc_deleteMessage adm h d messageId roomName publicKey)) =
     sendDeleteMessage h roomName messageId publicKey"
  by (simp add: chatSvc_deleteMessage_def Let_def split: prod.splits)

lemma chatSvc_deleteMessage_failed:
  "messageId \<noteq> [] \<Longrightarrow> deleteMessage d messageId publicKey adm = (False, d) \<Longrightarrow>
   fst (chatSvc_deleteMessage adm h d messageId roomName publicKey) =
     Response 404 (''Message '' @ quoted messageId @ '' not found or could not be deleted'') \<and>
   fst (snd (chatSvc_deleteMessage adm h d messageId roomName publicKey)) = d"
  by (simp add: chatSvc_deleteMessage_def Let_def)

text \<open>
  Claim C10. A delete request that carries a message id sends a \<open>delete-msg\<close> frame
  for that id and room to exactly the live members of the room whose key is not the
  requester's, whatever the store did with the delete. When the requester is not
  entitled, or no such message is stored, the store is unchanged and the response is
  a 404, and the frames are sent all the same.
\<close>

theorem chatSvc_deleteMessage_always_notifies:
  assumes "messageId \<noteq> []"
  shows "map fst (snd (snd (chatSvc_deleteMessage adm h d messageId roomName publicKey))) =
           filter (\<lambda>s. liveMember h roomName s \<and> memberKey h s \<noteq> Some publicKey) (clients h) \<and>
         list_all (\<lambda>p. snd p = DeleteMsgFrame messageId roomName)
           (snd (snd (chatSvc_deleteMessage adm h d messageId roomName publicKey))) \<and>
         (\<not> authorized d messageId publicKey adm \<or>
          \<not> list_ex (\<lambda>m. row_id m = messageId) (messages d) \<longrightarrow>
            fst (chatSvc_deleteMessage adm h d messageId roomName publicKey) =
              Response 404
                (''Message '' @ quoted messageId @ '' not found or could not be deleted'') \<and>
            fst (snd (chatSvc_deleteMessage adm h d messageId roomName publicKey)) = d)"
proof -
  have "deleteMessage d messageId publicKey adm = (False, d)"
    if "\<not> authorized d messageId publicKey adm \<or>
        \<not> list_ex (\<lambda>m. row_id m = messageId) (messages d)"
    using that deleteMessage_unauthorized deleteMessage_missing by blast
  then show ?thesis
    using assms chatSvc_deleteMessage_sent [OF assms, of adm h d roomName publicKey]
      chatSvc_deleteMessage_failed [OF assms, of d publicKey adm h roomName]
      sendDeleteMessage_recipients [of h roomName messageId publicKey]
      sendDeleteMessage_frames [of messageId roomName h publicKey]
    by auto
qed

text \<open>
  On the example hub and store: \<open>carol\<close> asks to delete \<open>alice\<close>'s message \<open>m3\<close>
  in room \<open>r1\<close>. The store refuses, the answer is a 404, and the open sockets of
  \<open>alice\<close> and \<open>bob\<close> receive the frame.
\<close>

theorem chatSvc_deleteMessage_always_notifies_witness:
  "\<not> authorized ex_db ''m3'' ''keyC'' (Some ''adminKey'') \<and>
   map fst (snd (snd (chatSvc_deleteMessage (Some ''adminKey'') ex_hub ex_db ''m3'' ''r1'' ''keyC'')))
     = [0, 1] \<and>
   fst (chatSvc_deleteMessage (Some ''adminKey'') ex_hub ex_db ''m3'' ''r1'' ''keyC'') =
     Response 404 (''Message '' @ quoted ''m3'' @ '' not found or could not be deleted'') \<and>
   fst (snd (chatSvc_deleteMessage (Some ''adminKey'') ex_hub ex_db ''m3'' ''r1'' ''keyC'')) = ex_db"
proof -
  have a: "\<not> authorized ex_db ''m3'' ''keyC'' (Some ''adminKey'')"
    by (simp add: authorized_def ex_db_def)
  have b: "filter (\<lambda>s. liveMember ex_hub ''r1'' s \<and> memberKey ex_hub s \<noteq> Some ''keyC'')
             (clients ex_hub) = [0, 1]"
    by (simp add: liveMember_def memberKey_def ex_hub_def alice_def bob_def carol_def dave_def)
  have c: "''m3'' \<noteq> []" by simp
  show ?thesis
    using a b
      chatSvc_deleteMessage_always_notifies
        [OF c, of "Some ''adminKey''" ex_hub ex_db "''r1''" "''keyC''"]
    by simp
qed

subsection \<open>Blocking a user\<close>

text \<open>
  Claim C9, as amended. For a public key that is not empty, the handler runs
  \<open>deleteUserContent\<close> and, when that did not fail, \<open>blockUser\<close> on the store it
  left, answering 200 when neither failed. When the content deletion fails the error
  is answered as a 500 and \<open>blockUser\<close> is not run: the store is the one the failed
  deletion left.
\<close>

theorem chatSvc_blockUser_sequence:
  assumes "publicKey \<noteq> []"
  shows "(case deleteUserContent publicKey d of
            (None, d1) \<Rightarrow>
              snd (chatSvc_blockUser deleteUserContent blockUser d publicKey) =
                snd (blockUser publicKey d1) \<and>
              (fst (chatSvc_blockUser deleteUserContent blockUser d publicKey) =
                 Response 200 ''User was blocked successfully.'')
                = (fst (blockUser publicKey d1) = None)
          | (Some e, d1) \<Rightarrow>
              chatSvc_blockUser deleteUserContent blockUser d publicKey =
                (Response 500 ''Server error while attempting to block user'', d1))"
  using assms
  by (auto simp: chatSvc_blockUser_def handleError_def split: prod.splits option.splits)

text \<open>
  On the example store with the platform's operations, blocking \<open>keyA\<close> removes
  \<open>m3\<close> and its attachment and puts the key on the block list; with a content
  deletion that fails, the answer is the 500 and the store is untouched.
\<close>

theorem chatSvc_blockUser_sequence_witness:
  "fst (chatSvc_blockUser deleteUserContent_ok blockUser_ok ex_db ''keyA'') =
     Response 200 ''User was blocked successfully.'' \<and>
   isUserBlocked (snd (chatSvc_blockUser deleteUserContent_ok blockUser_ok ex_db ''keyA''))
     (Some ''keyA'') \<and>
   map row_id (messages (snd (chatSvc_blockUser deleteUserContent_ok blockUser_ok ex_db ''keyA'')))
     = [''m4''] \<and>
   attachments (snd (chatSvc_blockUser deleteUserContent_ok blockUser_ok ex_db ''keyA'')) = [] \<and>
   chatSvc_blockUser deleteUserContent_failing blockUser_ok ex_db ''keyA'' =
     (Response 500 ''Server error while attempting to block user'', ex_db)"
proof -
  have k: "''keyA'' \<noteq> []" by simp
  have a: "deleteUserContent_ok ''keyA'' ex_db = (None, dbUsers_deleteUserContent ''keyA'' ex_db)"
    by (simp add: deleteUserContent_ok_def)
  have c: "deleteUserContent_failing ''keyA'' ex_db = (Some (StoreFailure ''connection lost''), ex_db)"
    by (simp add: deleteUserContent_failing_def)
  have ok: "snd (chatSvc_blockUser deleteUserContent_ok blockUser_ok ex_db ''keyA'') =
              dbUsers_blockUser ''keyA'' (dbUsers_deleteUserContent ''keyA'' ex_db) \<and>
            fst (chatSvc_blockUser deleteUserContent_ok blockUser_ok ex_db ''keyA'') =
              Response 200 ''User was blocked successfully.''"
    using chatSvc_blockUser_sequence
        [OF k, where deleteUserContent = deleteUserContent_ok and d = ex_db
           and blockUser = blockUser_ok]
    unfolding a by (simp add: blockUser_ok_def)
  have failing: "chatSvc_blockUser deleteUserContent_failing blockUser_ok ex_db ''keyA'' =
                   (Response 500 ''Server error while attempting to block user'', ex_db)"
    using chatSvc_blockUser_sequence
        [OF k, where deleteUserContent = deleteUserContent_failing and d = ex_db
           and blockUser = blockUser_ok]
    unfolding c by simp
  have st: "isUserBlocked (dbUsers_blockUser ''keyA'' (dbUsers_deleteUserContent ''keyA'' ex_db))
              (Some ''keyA'') \<and>
            map row_id (messages (dbUsers_blockUser ''keyA''
              (dbUsers_deleteUserContent ''keyA'' ex_db))) = [''m4''] \<and>
            attachments (dbUsers_blockUser ''keyA'' (dbUsers_deleteUserContent ''keyA'' ex_db)) = []"
    by (simp add: isUserBlocked_def dbUsers_blockUser_def dbUsers_deleteUserContent_def ex_db_def)
  show ?thesis using ok failing st by simp
qed

text \<open>
  The claim as stated fails: when the content deletion fails, \<open>keyA\<close> is not
  blocked afterwards.
\<close>

theorem chatSvc_blockUser_skips_block:
  "fst (deleteUserContent_failing ''keyA'' ex_db) \<noteq> None \<and>
   fst (chatSvc_blockUser deleteUserContent_failing blockUser_ok ex_db ''keyA'') =
     Response 500 ''Server error while attempting to block user'' \<and>
   \<not> isUserBlocked
       (snd (chatSvc_blockUser deleteUserContent_failing blockUser_ok ex_db ''keyA''))
       (Some ''keyA'')"
  by (simp add: chatSvc_blockUser_def deleteUserContent_failing_def handleError_def
      isUserBlocked_def ex_db_def)

section \<open>Properties of the client's sync pass\<close>

lemma syncFilter_kept:
  "fst (syncFilter serverIds msgs dirty) =
     map (\<lambda>m. if m_id m \<in> set serverIds then m\<lparr>m_state := Some SAVED\<rparr> else m)
       (filter (\<lambda>m. m_id m \<in> set serverIds \<or> m_state m \<noteq> Some SAVED) msgs)"
proof (induction msgs arbitrary: dirty)
  case Nil
  then show ?case by simp
next
  case (Cons m rest)
  show ?case
  proof (cases "m_id m \<in> set serverIds")
    case True
    have "m_state m = Some SAVED \<Longrightarrow> m\<lparr>m_state := Some SAVED\<rparr> = m" by simp
    then show ?thesis using True Cons.IH [of True] Cons.IH [of dirty]
      by (auto split: prod.splits)
  next
    case False
    then show ?thesis using Cons.IH [of True] Cons.IH [of dirty]
      by (auto split: prod.splits)
  qed
qed

text \<open>
  What the pass returns when server mode is on and the server answered with an id
  list that is not empty. \<open>kept\<close> is the cache after retention with each message whose
  id the server has set to \<open>SAVED\<close>, and without the messages that are \<open>SAVED\<close>
  and that the server lacks; the other messages stay as they are. The ids the server
  has and \<open>kept\<close> lacks are fetched. When the fetch brings at least one message, the
  result is \<open>kept\<close> followed by the fetched messages, sorted ascending by timestamp;
  in every other case the result is \<open>kept\<close>.
\<close>

lemma loadRoomMessages_sync:
  assumes "serverIds \<noteq> []"
  shows
    "(let cache = (case roomData of None \<Rightarrow> []
                   | Some cached \<Rightarrow> snd (cleanRoomMessages now chatDaysOfHistory cached));
          kept = map (\<lambda>m. if m_id m \<in> set serverIds then m\<lparr>m_state := Some SAVED\<rparr> else m)
                   (filter (\<lambda>m. m_id m \<in> set serverIds \<or> m_state m \<noteq> Some SAVED) cache);
          missingIds = filter (\<lambda>i. i \<notin> m_id ` set kept) serverIds;
          result = fst (loadRoomMessages True now chatDaysOfHistory roomData (Some serverIds) httpPost)
      in case (if missingIds = [] then None else httpPost missingIds) of
           Some (f # fs) \<Rightarrow>
             result = sort_key m_timestamp (kept @ f # fs) \<and> sorted (map m_timestamp result)
         | Some [] \<Rightarrow> result = kept
         | None \<Rightarrow> result = kept)"
proof -
  define cache where
    "cache = (case roomData of None \<Rightarrow> []
              | Some cached \<Rightarrow> snd (cleanRoomMessages now chatDaysOfHistory cached))"
  define kept where
    "kept = map (\<lambda>m. if m_id m \<in> set serverIds then m\<lparr>m_state := Some SAVED\<rparr> else m)
              (filter (\<lambda>m. m_id m \<in> set serverIds \<or> m_state m \<noteq> Some SAVED) cache)"
  define missingIds where "missingIds = filter (\<lambda>i. i \<notin> m_id ` set kept) serverIds"
  define result where
    "result = fst (loadRoomMessages True now chatDaysOfHistory roomData (Some serverIds) httpPost)"
  obtain dirty where sf: "syncFilter serverIds cache False = (kept, dirty)"
    using syncFilter_kept [of serverIds cache False]
    by (cases "syncFilter serverIds cache False") (simp add: kept_def)
  have run: "result =
               (if missingIds \<noteq> [] then
                  (case httpPost missingIds of
                     None \<Rightarrow> kept
                   | Some fetched \<Rightarrow>
                       if fetched \<noteq> [] then sort_key m_timestamp (kept @ fetched) else kept)
                else kept)"
    unfolding result_def loadRoomMessages_def Let_def cache_def [symmetric]
    using assms sf
    by (simp add: missingIds_def split: option.splits)
  have "case (if missingIds = [] then None else httpPost missingIds) of
          Some (f # fs) \<Rightarrow>
            result = sort_key m_timestamp (kept @ f # fs) \<and> sorted (map m_timestamp result)
        | Some [] \<Rightarrow> result = kept
        | None \<Rightarrow> result = kept"
  proof (cases "missingIds = []")
    case True
    then show ?thesis using run by simp
  next
    case False
    show ?thesis
    proof (cases "httpPost missingIds")
      case None
      then show ?thesis using False run by simp
    next
      case (Some fetched)
      then show ?thesis using False run by (cases fetched) simp_all
    qed
  qed
  then show ?thesis
    unfolding Let_def cache_def kept_def missingIds_def result_def .
qed
text \<open>
  The spec's scenario: the cache holds \<open>m10\<close> and \<open>m11\<close> saved and \<open>m12\<close>
  sent; the server lists \<open>m10\<close> and \<open>m13\<close>. After the sync \<open>m11\<close> is gone,
  \<open>m13\<close> is fetched and the list is in timestamp order.
\<close>

lemma loadRoomMessages_sync_scenario:
  "fst (loadRoomMessages True 5000 30 (Some ex_cache) (Some [''m10'', ''m13'']) ex_fetch) =
     [cached_msg ''m10'' 1000 SAVED, cached_msg ''m13'' 1200 SAVED, cached_msg ''m12'' 1300 SENT]"
proof -
  have n: "[''m10'', ''m13''] \<noteq> []" by simp
  have c: "snd (cleanRoomMessages 5000 30 ex_cache) = ex_cache"
    by (simp add: cleanRoomMessages_def ex_cache_def cached_msg_def)
  have k: "map (\<lambda>m. if m_id m \<in> set [''m10'', ''m13''] then m\<lparr>m_state := Some SAVED\<rparr> else m)
             (filter (\<lambda>m. m_id m \<in> set [''m10'', ''m13''] \<or> m_state m \<noteq> Some SAVED) ex_cache) =
           [cached_msg ''m10'' 1000 SAVED, cached_msg ''m12'' 1300 SENT]"
    by (simp add: ex_cache_def cached_msg_def)
  have m: "filter (\<lambda>i. i \<notin> m_id ` set [cached_msg ''m10'' 1000 SAVED, cached_msg ''m12'' 1300 SENT])
             [''m10'', ''m13''] = [''m13'']"
    by (simp add: cached_msg_def)
  have f: "ex_fetch [''m13''] = Some [cached_msg ''m13'' 1200 SAVED]"
    by (simp add: ex_fetch_def)
  have "fst (loadRoomMessages True 5000 30 (Some ex_cache) (Some [''m10'', ''m13'']) ex_fetch) =
          sort_key m_timestamp
            ([cached_msg ''m10'' 1000 SAVED, cached_msg ''m12'' 1300 SENT] @
             [cached_msg ''m13'' 1200 SAVED])"
    using loadRoomMessages_sync
        [OF n, where roomData = "Some ex_cache" and now = 5000 and chatDaysOfHistory = 30
           and httpPost = ex_fetch]
    unfolding Let_def option.case c k m f by simp
  then show ?thesis by (simp add: cached_msg_def)
qed

text \<open>
  Claim C8, on failing inputs. The server answers with an empty id list (the room
  was wiped) while the cache holds the saved message \<open>m11\<close>: the pass returns at
  its guard, \<open>m11\<close> stays and nothing is written back. And the cache holds the
  newer \<open>m12\<close> before \<open>m10\<close> while the server lists \<open>m10\<close>: nothing is to
  fetch, so the list is returned in its cached order, not sorted, and nothing is
  written back.
\<close>

theorem loadRoomMessages_keeps_stale_and_unsorted:
  "loadRoomMessages True 5000 30 (Some [cached_msg ''m11'' 1100 SAVED]) (Some []) ex_fetch =
     ([cached_msg ''m11'' 1100 SAVED], None) \<and>
   loadRoomMessages True 5000 30
     (Some [cached_msg ''m12'' 1300 SENT, cached_msg ''m10'' 1000 SAVED])
     (Some [''m10'']) ex_fetch =
     ([cached_msg ''m12'' 1300 SENT, cached_msg ''m10'' 1000 SAVED], None)"
  by (simp add: loadRoomMessages_def cleanRoomMessages_def cached_msg_def)

end
